theory Spec2Isabelle
  imports Complex_Main
begin

section \<open>JavaScript numbers\<close>

text \<open>
  The worker computes with JavaScript numbers. They are modelled as the reals extended by
  the three non-finite values of IEEE arithmetic. A finite result is exact as long as it
  is in the range of a double; a result whose magnitude reaches \<open>2^1024 - 2^970\<close>, from
  where rounding to nearest gives infinity, is the infinity of its sign. Rounding inside
  the range and the sign of zero are not modelled (a zero divisor counts as +0).
  Everything else follows the language: NaN absorbs, opposite infinities cancel to NaN, a
  finite non-zero value divided by zero is an infinity, every comparison with NaN is
  false, and NaN and 0 are the falsy numbers.
\<close>

datatype jsnum = Num real | NaN | PInf | NInf

definition overflowLimit :: real where
  "overflowLimit = 2 ^ 1024 - 2 ^ 970"

definition toDouble :: "real \<Rightarrow> jsnum" where
  "toDouble r =
     (if overflowLimit \<le> r then PInf else if r \<le> - overflowLimit then NInf else Num r)"

text \<open>\<open>Math.PI\<close> is the double nearest to \<open>pi\<close>, not \<open>pi\<close> itself.\<close>

definition Math_PI :: real where
  "Math_PI = 884279719003555 / 2 ^ 48"

instantiation jsnum :: "{plus, uminus, times, abs}"
begin

fun uminus_jsnum :: "jsnum \<Rightarrow> jsnum" where
  "uminus_jsnum (Num a) = Num (- a)"
| "uminus_jsnum NaN = NaN"
| "uminus_jsnum PInf = NInf"
| "uminus_jsnum NInf = PInf"

fun plus_jsnum :: "jsnum \<Rightarrow> jsnum \<Rightarrow> jsnum" where
  "plus_jsnum (Num a) (Num b) = toDouble (a + b)"
| "plus_jsnum NaN _ = NaN"
| "plus_jsnum _ NaN = NaN"
| "plus_jsnum PInf NInf = NaN"
| "plus_jsnum NInf PInf = NaN"
| "plus_jsnum PInf _ = PInf"
| "plus_jsnum _ PInf = PInf"
| "plus_jsnum NInf _ = NInf"
| "plus_jsnum _ NInf = NInf"

fun times_jsnum :: "jsnum \<Rightarrow> jsnum \<Rightarrow> jsnum" where
  "times_jsnum (Num a) (Num b) = toDouble (a * b)"
| "times_jsnum NaN _ = NaN"
| "times_jsnum _ NaN = NaN"
| "times_jsnum (Num a) PInf = (if a = 0 then NaN else if 0 < a then PInf else NInf)"
| "times_jsnum (Num a) NInf = (if a = 0 then NaN else if 0 < a then NInf else PInf)"
| "times_jsnum PInf (Num b) = (if b = 0 then NaN else if 0 < b then PInf else NInf)"
| "times_jsnum NInf (Num b) = (if b = 0 then NaN else if 0 < b then NInf else PInf)"
| "times_jsnum PInf PInf = PInf"
| "times_jsnum NInf NInf = PInf"
| "times_jsnum PInf NInf = NInf"
| "times_jsnum NInf PInf = NInf"

fun abs_jsnum :: "jsnum \<Rightarrow> jsnum" where
  "abs_jsnum (Num a) = Num \<bar>a\<bar>"
| "abs_jsnum NaN = NaN"
| "abs_jsnum PInf = PInf"
| "abs_jsnum NInf = PInf"

instance ..

end

instantiation jsnum :: "{minus, divide}"
begin

definition minus_jsnum :: "jsnum \<Rightarrow> jsnum \<Rightarrow> jsnum" where
  "minus_jsnum a b = a + (- b)"

fun divide_jsnum :: "jsnum \<Rightarrow> jsnum \<Rightarrow> jsnum" where
  "divide_jsnum (Num a) (Num b) =
     (if b \<noteq> 0 then toDouble (a / b)
      else if a = 0 then NaN else if 0 < a then PInf else NInf)"
| "divide_jsnum NaN _ = NaN"
| "divide_jsnum _ NaN = NaN"
| "divide_jsnum (Num a) PInf = Num 0"
| "divide_jsnum (Num a) NInf = Num 0"
| "divide_jsnum PInf (Num b) = (if 0 \<le> b then PInf else NInf)"
| "divide_jsnum NInf (Num b) = (if 0 \<le> b then NInf else PInf)"
| "divide_jsnum PInf PInf = NaN"
| "divide_jsnum PInf NInf = NaN"
| "divide_jsnum NInf PInf = NaN"
| "divide_jsnum NInf NInf = NaN"

instance ..

end

instantiation jsnum :: inverse
begin

definition inverse_jsnum :: "jsnum \<Rightarrow> jsnum" where
  "inverse_jsnum a = divide (Num 1) a"

instance ..

end

text \<open>\<open>typeof v === 'number' && isFinite(v) && !isNaN(v)\<close>\<close>

fun isValidNumber :: "jsnum \<Rightarrow> bool" where
  "isValidNumber (Num a) = True"
| "isValidNumber _ = False"

text \<open>Truthiness of a number, and the operator \<open>a || d\<close> on a number or on \<open>undefined\<close>.\<close>

fun truthy :: "jsnum \<Rightarrow> bool" where
  "truthy (Num a) = (a \<noteq> 0)"
| "truthy NaN = False"
| "truthy _ = True"

definition jsor :: "jsnum \<Rightarrow> jsnum \<Rightarrow> jsnum" where
  "jsor a d = (if truthy a then a else d)"

fun jsor_opt :: "jsnum option \<Rightarrow> jsnum \<Rightarrow> jsnum" where
  "jsor_opt None d = d"
| "jsor_opt (Some a) d = jsor a d"

text \<open>The comparisons \<open>a < b\<close>, \<open>a <= b\<close>, \<open>a > b\<close>: false whenever an operand is NaN.\<close>

fun jlt :: "jsnum \<Rightarrow> jsnum \<Rightarrow> bool" where
  "jlt (Num a) (Num b) = (a < b)"
| "jlt NaN _ = False"
| "jlt _ NaN = False"
| "jlt PInf _ = False"
| "jlt _ PInf = True"
| "jlt _ NInf = False"
| "jlt NInf _ = True"

definition jle :: "jsnum \<Rightarrow> jsnum \<Rightarrow> bool" where
  "jle a b = (a \<noteq> NaN \<and> b \<noteq> NaN \<and> \<not> jlt b a)"

definition jgt :: "jsnum \<Rightarrow> jsnum \<Rightarrow> bool" where
  "jgt a b = jlt b a"

text \<open>\<open>Math.max\<close> and \<open>Math.min\<close> of two numbers: NaN if either is.\<close>

definition Math_max :: "jsnum \<Rightarrow> jsnum \<Rightarrow> jsnum" where
  "Math_max a b = (if a = NaN \<or> b = NaN then NaN else if jlt a b then b else a)"

definition Math_min :: "jsnum \<Rightarrow> jsnum \<Rightarrow> jsnum" where
  "Math_min a b = (if a = NaN \<or> b = NaN then NaN else if jlt b a then b else a)"

text \<open>
  \<open>parseFloat(x.toFixed(d))\<close>: a finite \<open>x\<close> below \<open>10^21\<close> in magnitude is rounded to
  \<open>d\<close> decimals, a tie going away from zero; larger and non-finite values print and
  parse back unchanged.
\<close>

definition roundDecimals :: "nat \<Rightarrow> real \<Rightarrow> real" where
  "roundDecimals d a = sgn a * of_int \<lfloor>\<bar>a\<bar> * 10 ^ d + 1 / 2\<rfloor> / 10 ^ d"

fun toFixed :: "nat \<Rightarrow> jsnum \<Rightarrow> jsnum" where
  "toFixed d (Num a) = (if 10 ^ 21 \<le> \<bar>a\<bar> then Num a else Num (roundDecimals d a))"
| "toFixed d x = x"

fun Math_sin :: "jsnum \<Rightarrow> jsnum" where
  "Math_sin (Num a) = Num (sin a)"
| "Math_sin _ = NaN"

fun Math_sqrt :: "jsnum \<Rightarrow> jsnum" where
  "Math_sqrt (Num a) = (if a < 0 then NaN else Num (sqrt a))"
| "Math_sqrt PInf = PInf"
| "Math_sqrt _ = NaN"

fun Math_sign :: "jsnum \<Rightarrow> jsnum" where
  "Math_sign (Num a) = Num (sgn a)"
| "Math_sign NaN = NaN"
| "Math_sign PInf = Num 1"
| "Math_sign NInf = Num (- 1)"

text \<open>The remainder \<open>x % m\<close> for a finite positive \<open>m\<close>: it takes the sign of \<open>x\<close>.\<close>

fun jsrem :: "jsnum \<Rightarrow> real \<Rightarrow> jsnum" where
  "jsrem (Num a) m = Num (a - m * of_int (if 0 \<le> a then \<lfloor>a / m\<rfloor> else \<lceil>a / m\<rceil>))"
| "jsrem _ m = NaN"

section \<open>Components, wires and the simulation state\<close>

text \<open>
  A component as the editor's \<open>Component\<close> class builds it and the worker extends it:
  \<open>id\<close>, \<open>type\<close> and the output \<open>values\<close> are always present; the numeric fields the
  worker hangs on the object itself (\<open>voltage\<close>, \<open>current\<close>, \<open>resistance\<close>,
  \<open>capacitance\<close>, \<open>inductance\<close>, \<open>value\<close>) may be \<open>undefined\<close> (\<open>None\<close>). A missing
  \<open>parameters\<close> or \<open>properties\<close> object is the record with every entry \<open>None\<close>: the
  source reads both through one more property access, which fails or yields
  \<open>undefined\<close> in the same way for a missing object and for a missing entry.
  Fields hold numbers (or strings for the type and the waveform), never other objects.
\<close>

record vals =
  v_voltage :: jsnum
  v_current :: jsnum
  v_power :: jsnum

record params =
  par_amplitude :: "jsnum option"
  par_frequency :: "jsnum option"
  par_dcOffset :: "jsnum option"
  par_waveform :: "string option"

record props =
  p_voltage :: "jsnum option"
  p_resistance :: "jsnum option"
  p_frequency :: "jsnum option"
  p_waveform :: "string option"

record component =
  c_id :: string
  c_type :: string
  c_values :: vals
  c_voltage :: "jsnum option"
  c_current :: "jsnum option"
  c_resistance :: "jsnum option"
  c_capacitance :: "jsnum option"
  c_inductance :: "jsnum option"
  c_value :: "jsnum option"
  c_parameters :: params
  c_properties :: props

text \<open>
  A wire with its numeric \<open>current\<close> and \<open>voltage\<close>, the endpoint ids the validator and
  the transient analysis read (\<open>startComponent\<close>, \<open>endComponent\<close>), the ones the DC and
  AC analyses read (\<open>source.componentId\<close>, \<open>target.componentId\<close>) and the
  \<open>connections\<close> strings of the conservation pass.
\<close>

record wire =
  w_id :: string
  w_current :: jsnum
  w_voltage :: jsnum
  w_startComponent :: "string option"
  w_endComponent :: "string option"
  w_source :: "string option"
  w_target :: "string option"
  w_connections :: "string list"

definition zeroValues :: vals where
  "zeroValues = \<lparr>v_voltage = Num 0, v_current = Num 0, v_power = Num 0\<rparr>"

text \<open>The history record the enhanced stability filter keeps per component and quantity.\<close>

record hist =
  h_values :: "real list"
  h_movingAvg :: jsnum
  h_exponentialAvg :: jsnum
  h_variance :: jsnum
  h_fluctuationCount :: real
  h_steadyCount :: nat
  h_lastUpdate :: jsnum

text \<open>
  \<open>componentValueHistory[id]\<close> is an object \<open>{voltage, current}\<close>. Its two members have
  two shapes in the source: \<open>initializeValueHistory\<close> stores plain arrays of numbers,
  \<open>applyStabilityFilter\<close> stores filter records.
\<close>

datatype history = HistArray "jsnum list" | HistRecord hist

record tracked =
  t_values :: "jsnum list"
  t_average :: jsnum
  t_smoothed :: jsnum

record stabilityTracker =
  samplesCollected :: nat
  maxSamples :: nat
  prevValues :: "string \<rightharpoonup> tracked"
  smoothingFactor :: jsnum
  varianceThreshold :: jsnum

text \<open>
  Timers: \<open>setInterval\<close> registers a callback under a fresh handle, \<open>clearInterval\<close>
  removes it. The two callbacks of the source are the loop installed by
  \<open>startSimulation\<close> and the one installed by \<open>updateSimulationSpeed\<close>. The variable
  \<open>simulationInterval\<close> is never declared in the source: it comes into existence with
  the first assignment, and reading it before that raises a ReferenceError.
\<close>

datatype loopBody = StartLoop | SpeedLoop

record timer =
  t_period :: jsnum
  t_body :: loopBody

datatype binding = Undeclared | Null | Handle nat

datatype error = TypeError | ReferenceError

text \<open>Messages posted to the main thread.\<close>

datatype msg =
    SimulationStarted
  | SimulationUpdate "component list" "wire list" jsnum bool "bool \<times> nat \<times> nat"
  | SpeedLoopUpdate "(string \<times> vals) list" "(string \<times> jsnum \<times> jsnum) list" jsnum
  | SimulationError jsnum
  | SimulationPaused
  | SimulationStopped "(string \<times> vals) list" "(string \<times> jsnum \<times> jsnum) list"
  | FrequencyResponse

record state =
  running :: bool
  speed :: jsnum
  simType :: string
  components :: "component list"
  wires :: "wire list"
  time :: jsnum
  iterationCount :: nat
  componentValueHistory :: "string \<rightharpoonup> history \<times> history"
  wireValueHistory :: "string \<rightharpoonup> jsnum list"
  stabilized :: bool
  tracker :: stabilityTracker
  timers :: "nat \<rightharpoonup> timer"
  nextHandle :: nat
  simulationInterval :: binding
  outbox :: "msg list"

text \<open>
  A call either returns or raises. A raise keeps the state as mutated up to that point,
  as the source's objects are.
\<close>

datatype 'a outcome = Done 'a | Raised error 'a

fun after :: "'a outcome \<Rightarrow> 'a" where
  "after (Done s) = s"
| "after (Raised e s) = s"

definition postMessage :: "msg \<Rightarrow> state \<Rightarrow> state" where
  "postMessage m st = st\<lparr>outbox := outbox st @ [m]\<rparr>"

definition setInterval :: "loopBody \<Rightarrow> jsnum \<Rightarrow> state \<Rightarrow> state" where
  "setInterval body period st =
     st\<lparr>timers := (timers st)(nextHandle st \<mapsto> \<lparr>t_period = period, t_body = body\<rparr>),
        simulationInterval := Handle (nextHandle st),
        nextHandle := Suc (nextHandle st)\<rparr>"

definition clearInterval :: "nat \<Rightarrow> state \<Rightarrow> state" where
  "clearInterval h st = st\<lparr>timers := (timers st)(h := None)\<rparr>"

text \<open>The state the worker script starts with.\<close>

definition initialState :: state where
  "initialState =
     \<lparr>running = False, speed = Num 1, simType = ''transient'', components = [], wires = [],
      time = Num 0, iterationCount = 0, componentValueHistory = Map.empty,
      wireValueHistory = Map.empty, stabilized = False,
      tracker = \<lparr>samplesCollected = 0, maxSamples = 5, prevValues = Map.empty,
                 smoothingFactor = Num 0.7, varianceThreshold = Num 0.1\<rparr>,
      timers = Map.empty, nextHandle = 1, simulationInterval = Undeclared, outbox = []\<rparr>"

section \<open>Lifecycle: stop, pause, speed\<close>

definition resetSimulationValues :: "state \<Rightarrow> state" where
  "resetSimulationValues st =
     st\<lparr>components := map (\<lambda>c. c\<lparr>c_values := zeroValues\<rparr>) (components st),
        wires := map (\<lambda>w. w\<lparr>w_current := Num 0, w_voltage := Num 0\<rparr>) (wires st)\<rparr>"

definition stoppedSnapshot :: "state \<Rightarrow> msg" where
  "stoppedSnapshot st =
     SimulationStopped (map (\<lambda>c. (c_id c, c_values c)) (components st))
                       (map (\<lambda>w. (w_id w, w_current w, w_voltage w)) (wires st))"

definition stopSimulation :: "state \<Rightarrow> state outcome" where
  "stopSimulation st =
     (let st1 = st\<lparr>running := False\<rparr> in
      case simulationInterval st1 of
        Undeclared \<Rightarrow> Raised ReferenceError st1
      | Null \<Rightarrow>
          (let st3 = resetSimulationValues st1 in Done (postMessage (stoppedSnapshot st3) st3))
      | Handle h \<Rightarrow>
          (let st2 = (clearInterval h st1)\<lparr>simulationInterval := Null\<rparr>;
               st3 = resetSimulationValues st2
           in Done (postMessage (stoppedSnapshot st3) st3)))"

definition pauseSimulation :: "state \<Rightarrow> state" where
  "pauseSimulation st = postMessage SimulationPaused (st\<lparr>running := False\<rparr>)"

definition updateSimulationSpeed :: "jsnum \<Rightarrow> state \<Rightarrow> state outcome" where
  "updateSimulationSpeed s st =
     (if jle s (Num 0) then Done st
      else
        let st1 = st\<lparr>speed := s\<rparr> in
        if \<not> running st1 then Done st1
        else case simulationInterval st1 of
          Undeclared \<Rightarrow> Raised ReferenceError st1
        | Null \<Rightarrow> Done st1
        | Handle h \<Rightarrow>
            Done (setInterval SpeedLoop (Math_max (Num 10) (Num 50 / s)) (clearInterval h st1)))"

section \<open>The stability filter\<close>

text \<open>
  The median of a non-empty array, as \<open>enhancedStabilityFilter\<close> computes it: sort
  numerically, take the middle element or the mean of the two middle ones.
\<close>

definition median :: "real list \<Rightarrow> jsnum" where
  "median vs =
     (let sortedValues = sort vs; mid = length sortedValues div 2 in
      if length sortedValues mod 2 = 0
      then (Num (sortedValues ! (mid - 1)) + Num (sortedValues ! mid)) / Num 2
      else Num (sortedValues ! mid))"

text \<open>\<open>history.values.push(newValue); if (history.values.length > 10) history.values.shift()\<close>\<close>

definition pushBounded :: "real list \<Rightarrow> real \<Rightarrow> real list" where
  "pushBounded vs x = (let vs' = vs @ [x] in if 10 < length vs' then tl vs' else vs')"

definition movingAverage :: "real list \<Rightarrow> jsnum" where
  "movingAverage vs = foldl (\<lambda>acc v. acc + Num v) (Num 0) vs / Num (real (length vs))"

definition variancePop :: "real list \<Rightarrow> jsnum \<Rightarrow> jsnum" where
  "variancePop vs avg =
     foldl (\<lambda>sum v. sum + (Num v - avg) * (Num v - avg)) (Num 0) vs / Num (real (length vs))"

text \<open>
  The steps of \<open>enhancedStabilityFilter\<close>, in the order of the source. The signal
  fluctuates when the normalized difference to the exponential average exceeds 15%:
  \<open>Math.abs(newValue - history.exponentialAvg) / (Math.abs(history.exponentialAvg) || 0.01) > 0.15\<close>.
\<close>

definition fluctuates :: "real \<Rightarrow> jsnum \<Rightarrow> bool" where
  "fluctuates x expAvg = jgt (\<bar>Num x - expAvg\<bar> / jsor \<bar>expAvg\<bar> (Num 0.01)) (Num 0.15)"

definition nextFluctuationCount :: "bool \<Rightarrow> real \<Rightarrow> real" where
  "nextFluctuationCount fl n = (if fl then n + 1 else max 0 (n - 0.5))"

definition nextSteadyCount :: "bool \<Rightarrow> nat \<Rightarrow> nat" where
  "nextSteadyCount fl n = (if fl then 0 else Suc n)"

definition adaptiveAlpha :: "real \<Rightarrow> nat \<Rightarrow> real" where
  "adaptiveAlpha fluctuationCount steadyCount =
     (if 5 < fluctuationCount then 0.05
      else if 2 < fluctuationCount then 0.1
      else if 10 < steadyCount then 0.5
      else 0.3)"

definition selectOutput :: "real \<Rightarrow> jsnum \<Rightarrow> jsnum \<Rightarrow> real \<Rightarrow> jsnum" where
  "selectOutput fluctuationCount med exponentialAvg x =
     (if 5 < fluctuationCount then med
      else if 2 < fluctuationCount then exponentialAvg
      else Num 0.7 * Num x + Num 0.3 * exponentialAvg)"

text \<open>
  The body of \<open>enhancedStabilityFilter\<close> after its guard, for the finite input \<open>x\<close> and
  a filter record: the returned value and the updated record. The array
  \<open>history.values\<close> only ever receives values that passed the guard, so it holds finite
  numbers.
\<close>

definition filterRecord :: "real \<Rightarrow> hist \<Rightarrow> jsnum \<Rightarrow> jsnum \<times> hist" where
  "filterRecord x history currentTime =
     (let timeDelta = currentTime - h_lastUpdate history;
          timeWeight = Math_min (Num 1) (timeDelta * Num 10);
          vs = pushBounded (h_values history) x;
          movingAvg = movingAverage vs;
          med = median vs;
          variance = variancePop vs movingAvg;
          variance' = Num 0.8 * h_variance history + Num 0.2 * variance;
          fl = fluctuates x (h_exponentialAvg history);
          fluctuationCount = nextFluctuationCount fl (h_fluctuationCount history);
          steadyCount = nextSteadyCount fl (h_steadyCount history);
          alpha = adaptiveAlpha fluctuationCount steadyCount;
          exponentialAvg =
            Num alpha * timeWeight * Num x
              + (Num 1 - Num alpha * timeWeight) * h_exponentialAvg history;
          outputValue = selectOutput fluctuationCount med exponentialAvg x
      in (Math_max (Num (- 1000)) (Math_min (Num 1000) outputValue),
          history\<lparr>h_values := vs, h_movingAvg := movingAvg,
                   h_exponentialAvg := exponentialAvg, h_variance := variance',
                   h_fluctuationCount := fluctuationCount, h_steadyCount := steadyCount,
                   h_lastUpdate := currentTime\<rparr>))"

text \<open>
  \<open>enhancedStabilityFilter(newValue, history, currentTime)\<close>. A non-finite value returns
  0 from the first line. Handed one of the arrays that \<open>initializeValueHistory\<close> stores,
  the call raises a TypeError at \<open>history.values.push\<close>, which is not a function on an
  array (the property \<open>lastUpdate\<close> it has set on the array by then is read by nothing).
\<close>

definition enhancedStabilityFilter ::
  "jsnum \<Rightarrow> history \<Rightarrow> jsnum \<Rightarrow> (error + jsnum) \<times> history" where
  "enhancedStabilityFilter newValue history currentTime =
     (case newValue of
        Num x \<Rightarrow>
          (case history of
             HistArray a \<Rightarrow> (Inl TypeError, HistArray a)
           | HistRecord h \<Rightarrow>
               (let (outputValue, h') = filterRecord x h currentTime
                in (Inr outputValue, HistRecord h')))
      | _ \<Rightarrow> (Inr (Num 0), history))"

definition newHist :: "jsnum \<Rightarrow> jsnum \<Rightarrow> hist" where
  "newHist v now =
     \<lparr>h_values = [], h_movingAvg = jsor v (Num 0), h_exponentialAvg = jsor v (Num 0),
      h_variance = Num 0, h_fluctuationCount = 0, h_steadyCount = 0, h_lastUpdate = now\<rparr>"


definition isSource :: "component \<Rightarrow> bool" where
  "isSource c = (c_type c = ''voltage-source'' \<or> c_type c = ''current-source'')"

definition setFiltered :: "component \<Rightarrow> jsnum \<Rightarrow> jsnum \<Rightarrow> component" where
  "setFiltered c filteredVoltage filteredCurrent =
     c\<lparr>c_values := (c_values c)\<lparr>v_voltage := filteredVoltage, v_current := filteredCurrent\<rparr>,
       c_voltage := (case c_voltage c of None \<Rightarrow> None | Some _ \<Rightarrow> Some filteredVoltage),
       c_current := (case c_current c of None \<Rightarrow> None | Some _ \<Rightarrow> Some filteredCurrent)\<rparr>"

text \<open>
  \<open>applyStabilityFilter(component)\<close>. A raise of the filter leaves the function at once;
  the history stored or updated up to then stays.
\<close>

definition applyStabilityFilter :: "state \<Rightarrow> component \<Rightarrow> (state \<times> component) outcome" where
  "applyStabilityFilter st c =
     (if isSource c then Done (st, c)
      else
        let entry =
              (case componentValueHistory st (c_id c) of
                 None \<Rightarrow> (HistRecord (newHist (v_voltage (c_values c)) (time st)),
                           HistRecord (newHist (v_current (c_values c)) (time st)))
               | Some e \<Rightarrow> e);
            (filteredVoltage, hv) =
              enhancedStabilityFilter (v_voltage (c_values c)) (fst entry) (time st);
            st1 = st\<lparr>componentValueHistory :=
                        (componentValueHistory st)(c_id c \<mapsto> (hv, snd entry))\<rparr>
        in case filteredVoltage of
             Inl e \<Rightarrow> Raised e (st1, c)
           | Inr fv \<Rightarrow>
               (let (filteredCurrent, hc) =
                      enhancedStabilityFilter (v_current (c_values c)) (snd entry) (time st);
                    st2 = st\<lparr>componentValueHistory :=
                                (componentValueHistory st)(c_id c \<mapsto> (hv, hc))\<rparr>
                in case filteredCurrent of
                     Inl e \<Rightarrow> Raised e (st2, c)
                   | Inr fc \<Rightarrow> Done (st2, setFiltered c fv fc)))"

text \<open>
  The editor's \<open>Component\<close> constructor, as far as the worker reads its result: the
  outputs start at zero and nothing else is set.
\<close>

definition noParams :: params where
  "noParams = \<lparr>par_amplitude = None, par_frequency = None, par_dcOffset = None,
                 par_waveform = None\<rparr>"

definition noProps :: props where
  "noProps = \<lparr>p_voltage = None, p_resistance = None, p_frequency = None, p_waveform = None\<rparr>"

definition Component :: "string \<Rightarrow> string \<Rightarrow> props \<Rightarrow> component" where
  "Component i ty ps =
     \<lparr>c_id = i, c_type = ty, c_values = zeroValues, c_voltage = None, c_current = None,
      c_resistance = None, c_capacitance = None, c_inductance = None, c_value = None,
      c_parameters = noParams, c_properties = ps\<rparr>"

section \<open>The voltage-source update rule\<close>

definition jge :: "jsnum \<Rightarrow> jsnum \<Rightarrow> bool" where
  "jge a b = jle b a"







section \<open>The conservation-law corrector\<close>

text \<open>
  Loop and node members are objects \<open>{type, id, direction}\<close>. The corrector reaches
  components and wires only through the lookup tables \<open>componentsById\<close> and
  \<open>wiresById\<close>, so the pass is a function on these two tables. Each table entry is the
  object itself: a change made through the table is the change of the component.
\<close>

record element =
  e_type :: string
  e_id :: string
  e_direction :: jsnum

record connection =
  conn_wire :: wire
  conn_terminal :: string

record node =
  n_id :: string
  n_connections :: "element list"

text \<open>\<open>const [componentId, terminal] = connection.split('-')\<close>\<close>

definition splitComponentId :: "string \<Rightarrow> string" where
  "splitComponentId s = takeWhile (\<lambda>ch. ch \<noteq> CHR ''-'') s"

definition splitTerminal :: "string \<Rightarrow> string option" where
  "splitTerminal s =
     (case dropWhile (\<lambda>ch. ch \<noteq> CHR ''-'') s of
        [] \<Rightarrow> None
      | _ # rest \<Rightarrow> Some (takeWhile (\<lambda>ch. ch \<noteq> CHR ''-'') rest))"

definition componentElement :: "string \<Rightarrow> jsnum \<Rightarrow> element" where
  "componentElement i d = \<lparr>e_type = ''component'', e_id = i, e_direction = d\<rparr>"

text \<open>
  \<open>getComponentConnections\<close> is called by \<open>findVoltageLoops\<close> and declared nowhere in
  the repository: the worker's global scope has no such binding, and the first call
  raises a ReferenceError. The binding is an argument of the model, \<open>None\<close> for the
  repository as it is and \<open>Some g\<close> for a scope in which a function \<open>g\<close> is bound.

  The \<open>while\<close> loop of \<open>findVoltageLoops\<close>, which is reached only with a bound helper,
  has \<open>maxIterations\<close> as the recursion argument. It returns the loop when the chain
  comes back to the origin, and nothing when it breaks off or the iterations run out.
\<close>

fun followChain ::
  "(component \<Rightarrow> connection list) \<Rightarrow> (string \<rightharpoonup> component) \<Rightarrow> string \<Rightarrow> nat \<Rightarrow>
     wire option \<Rightarrow> string \<Rightarrow> element list \<Rightarrow> element list option" where
  "followChain getComponentConnections componentsById origin 0 currentWire previous loop = None"
| "followChain getComponentConnections componentsById origin (Suc n) None previous loop = None"
| "followChain getComponentConnections componentsById origin (Suc n) (Some w) previous loop =
     (case map (\<lambda>s. componentsById (splitComponentId s))
             (filter (\<lambda>s. splitComponentId s \<noteq> previous) (w_connections w)) of
        [Some nextComponent] \<Rightarrow>
          (let loop' = loop @ [componentElement (c_id nextComponent) (Num 1)] in
           if c_id nextComponent = origin then Some loop'
           else
             followChain getComponentConnections componentsById origin n
               (case find (\<lambda>c. w_id (conn_wire c) \<noteq> w_id w)
                       (getComponentConnections nextComponent) of
                  None \<Rightarrow> None
                | Some c \<Rightarrow> Some (conn_wire c))
               (c_id nextComponent) loop')
      | _ \<Rightarrow> None)"

definition findVoltageLoops ::
  "(component \<Rightarrow> connection list) option \<Rightarrow> component list \<Rightarrow> (string \<rightharpoonup> component) \<Rightarrow>
     error + element list list" where
  "findVoltageLoops getComponentConnections cs componentsById =
     (case getComponentConnections of
        None \<Rightarrow> if cs = [] then Inr [] else Inl ReferenceError
      | Some g \<Rightarrow>
          Inr (List.map_filter
                 (\<lambda>c. case g c of
                         [c0, c1] \<Rightarrow>
                           followChain g componentsById (c_id c) 10
                             (Some (conn_wire c0)) (c_id c) [componentElement (c_id c) (Num 1)]
                       | _ \<Rightarrow> None)
                 cs))"

definition findCurrentNodes :: "wire list \<Rightarrow> (string \<rightharpoonup> component) \<Rightarrow> node list" where
  "findCurrentNodes ws componentsById =
     List.map_filter
       (\<lambda>w. let conns =
                   map (\<lambda>s. componentElement (splitComponentId s)
                               (if splitTerminal s = Some ''1'' then Num 1 else Num (- 1)))
                     (filter (\<lambda>s. componentsById (splitComponentId s) \<noteq> None)
                        (w_connections w))
             in if 1 < length conns then Some \<lparr>n_id = ''node-'' @ w_id w, n_connections = conns\<rparr>
                else None)
       ws"

text \<open>\<open>component?.values?.voltage || 0\<close> and \<open>component?.values?.current || 0\<close>\<close>

definition voltageOf :: "(string \<rightharpoonup> component) \<Rightarrow> string \<Rightarrow> jsnum" where
  "voltageOf componentsById i =
     (case componentsById i of None \<Rightarrow> Num 0 | Some c \<Rightarrow> jsor (v_voltage (c_values c)) (Num 0))"

definition currentOf :: "(string \<rightharpoonup> component) \<Rightarrow> string \<Rightarrow> jsnum" where
  "currentOf componentsById i =
     (case componentsById i of None \<Rightarrow> Num 0 | Some c \<Rightarrow> jsor (v_current (c_values c)) (Num 0))"

definition wireCurrentOf :: "(string \<rightharpoonup> wire) \<Rightarrow> string \<Rightarrow> jsnum" where
  "wireCurrentOf wiresById i =
     (case wiresById i of None \<Rightarrow> Num 0 | Some w \<Rightarrow> jsor (w_current w) (Num 0))"

text \<open>Kirchhoff's voltage law: the sum around a loop, then the correction of its members.\<close>

fun loopVoltage :: "(string \<rightharpoonup> component) \<Rightarrow> element list \<Rightarrow> jsnum \<Rightarrow> jsnum" where
  "loopVoltage componentsById [] totalVoltage = totalVoltage"
| "loopVoltage componentsById (e # es) totalVoltage =
     loopVoltage componentsById es
       (if e_type e = ''component''
        then totalVoltage + e_direction e * voltageOf componentsById (e_id e)
        else totalVoltage)"

definition adjustVoltage :: "jsnum \<Rightarrow> element \<Rightarrow> (string \<rightharpoonup> component) \<Rightarrow> (string \<rightharpoonup> component)" where
  "adjustVoltage correction e componentsById =
     (if e_type e = ''component'' then
        (case componentsById (e_id e) of
           None \<Rightarrow> componentsById
         | Some c \<Rightarrow>
             if c_type c \<noteq> ''voltage-source'' \<and> c_type c \<noteq> ''current-source''
             then componentsById(e_id e \<mapsto>
                    c\<lparr>c_values := (c_values c)
                         \<lparr>v_voltage := v_voltage (c_values c) - e_direction e * correction\<rparr>\<rparr>)
             else componentsById)
      else componentsById)"

fun adjustLoop :: "jsnum \<Rightarrow> element list \<Rightarrow> (string \<rightharpoonup> component) \<Rightarrow> (string \<rightharpoonup> component)" where
  "adjustLoop correction [] componentsById = componentsById"
| "adjustLoop correction (e # es) componentsById =
     adjustLoop correction es (adjustVoltage correction e componentsById)"

definition correctLoop :: "element list \<Rightarrow> (string \<rightharpoonup> component) \<Rightarrow> (string \<rightharpoonup> component)" where
  "correctLoop loop componentsById =
     (let totalVoltage = loopVoltage componentsById loop (Num 0) in
      if jgt \<bar>totalVoltage\<bar> (Num 0.001)
      then adjustLoop (totalVoltage / Num (real (length loop))) loop componentsById
      else componentsById)"

fun applyKVL :: "element list list \<Rightarrow> (string \<rightharpoonup> component) \<Rightarrow> (string \<rightharpoonup> component)" where
  "applyKVL [] componentsById = componentsById"
| "applyKVL (loop # loops) componentsById = applyKVL loops (correctLoop loop componentsById)"

text \<open>Kirchhoff's current law at each node, on component and wire currents.\<close>

fun nodeCurrent ::
  "(string \<rightharpoonup> component) \<Rightarrow> (string \<rightharpoonup> wire) \<Rightarrow> element list \<Rightarrow> jsnum \<Rightarrow> jsnum" where
  "nodeCurrent componentsById wiresById [] totalCurrent = totalCurrent"
| "nodeCurrent componentsById wiresById (e # es) totalCurrent =
     nodeCurrent componentsById wiresById es
       (if e_type e = ''component''
        then totalCurrent + e_direction e * currentOf componentsById (e_id e)
        else if e_type e = ''wire''
        then totalCurrent + e_direction e * wireCurrentOf wiresById (e_id e)
        else totalCurrent)"

definition adjustCurrent ::
  "jsnum \<Rightarrow> element \<Rightarrow> (string \<rightharpoonup> component) \<times> (string \<rightharpoonup> wire) \<Rightarrow>
     (string \<rightharpoonup> component) \<times> (string \<rightharpoonup> wire)" where
  "adjustCurrent correction e tables =
     (let componentsById = fst tables; wiresById = snd tables in
      if e_type e = ''component'' then
        (case componentsById (e_id e) of
           None \<Rightarrow> tables
         | Some c \<Rightarrow>
             if c_type c \<noteq> ''current-source''
             then (componentsById(e_id e \<mapsto>
                     c\<lparr>c_values := (c_values c)
                          \<lparr>v_current := v_current (c_values c) - e_direction e * correction\<rparr>\<rparr>),
                   wiresById)
             else tables)
      else if e_type e = ''wire'' then
        (case wiresById (e_id e) of
           None \<Rightarrow> tables
         | Some w \<Rightarrow>
             (componentsById,
              wiresById(e_id e \<mapsto> w\<lparr>w_current := w_current w - e_direction e * correction\<rparr>)))
      else tables)"

fun adjustNode ::
  "jsnum \<Rightarrow> element list \<Rightarrow> (string \<rightharpoonup> component) \<times> (string \<rightharpoonup> wire) \<Rightarrow>
     (string \<rightharpoonup> component) \<times> (string \<rightharpoonup> wire)" where
  "adjustNode correction [] tables = tables"
| "adjustNode correction (e # es) tables = adjustNode correction es (adjustCurrent correction e tables)"

definition correctNode ::
  "node \<Rightarrow> (string \<rightharpoonup> component) \<times> (string \<rightharpoonup> wire) \<Rightarrow>
     (string \<rightharpoonup> component) \<times> (string \<rightharpoonup> wire)" where
  "correctNode nd tables =
     (let totalCurrent = nodeCurrent (fst tables) (snd tables) (n_connections nd) (Num 0) in
      if jgt \<bar>totalCurrent\<bar> (Num 0.001)
      then adjustNode (totalCurrent / Num (real (length (n_connections nd))))
             (n_connections nd) tables
      else tables)"

fun applyKCL ::
  "node list \<Rightarrow> (string \<rightharpoonup> component) \<times> (string \<rightharpoonup> wire) \<Rightarrow>
     (string \<rightharpoonup> component) \<times> (string \<rightharpoonup> wire)" where
  "applyKCL [] tables = tables"
| "applyKCL (nd # nds) tables = applyKCL nds (correctNode nd tables)"

text \<open>
  \<open>applyConservationLaws(components, wires, componentsById, wiresById)\<close>. A raise of
  \<open>findVoltageLoops\<close> leaves the function before anything is corrected.
\<close>

definition applyConservationLaws ::
  "(component \<Rightarrow> connection list) option \<Rightarrow> component list \<Rightarrow> wire list \<Rightarrow>
     (string \<rightharpoonup> component) \<Rightarrow> (string \<rightharpoonup> wire) \<Rightarrow>
     ((string \<rightharpoonup> component) \<times> (string \<rightharpoonup> wire)) outcome" where
  "applyConservationLaws getComponentConnections cs ws componentsById wiresById =
     (case findVoltageLoops getComponentConnections cs componentsById of
        Inl e \<Rightarrow> Raised e (componentsById, wiresById)
      | Inr voltageLoops \<Rightarrow>
          (let componentsById1 = applyKVL voltageLoops componentsById;
               currentNodes = findCurrentNodes ws componentsById1
           in Done (applyKCL currentNodes (componentsById1, wiresById))))"

text \<open>
  The relation between two tables that keeps every entry, its type and the voltage of
  every source.
\<close>

definition keptSources :: "(string \<rightharpoonup> component) \<Rightarrow> (string \<rightharpoonup> component) \<Rightarrow> bool" where
  "keptSources m m' =
     (\<forall>i c. m i = Some c \<longrightarrow>
        (\<exists>c'. m' i = Some c' \<and> c_type c' = c_type c \<and>
           (isSource c \<longrightarrow> v_voltage (c_values c') = v_voltage (c_values c))))"

text \<open>
  A concrete circuit: two resistors at 1 V each, joined by two wires into a ring.
\<close>

definition resistorAt :: "string \<Rightarrow> real \<Rightarrow> component" where
  "resistorAt i v =
     (Component i ''resistor'' noProps)
       \<lparr>c_values := \<lparr>v_voltage = Num v, v_current = Num 0, v_power = Num 0\<rparr>\<rparr>"

definition wireBetween :: "string \<Rightarrow> string list \<Rightarrow> wire" where
  "wireBetween i conns =
     \<lparr>w_id = i, w_current = Num 0, w_voltage = Num 0, w_startComponent = None,
      w_endComponent = None, w_source = None, w_target = None, w_connections = conns\<rparr>"

definition ringComponents :: "component list" where
  "ringComponents = [resistorAt ''r1'' 1, resistorAt ''r2'' 1]"

definition ringWires :: "wire list" where
  "ringWires = [wireBetween ''wa'' [''r1-2'', ''r2-1''], wireBetween ''wb'' [''r2-2'', ''r1-1'']]"

definition twoResistorTable :: "string \<rightharpoonup> component" where
  "twoResistorTable = [''r1'' \<mapsto> resistorAt ''r1'' 1, ''r2'' \<mapsto> resistorAt ''r2'' 1]"

definition ringWireTable :: "string \<rightharpoonup> wire" where
  "ringWireTable = [''wa'' \<mapsto> wireBetween ''wa'' [''r1-2'', ''r2-1''],
                    ''wb'' \<mapsto> wireBetween ''wb'' [''r2-2'', ''r1-1'']]"

text \<open>
  A helper as the calls suggest it: the connections of a component of the ring, each
  with its wire and the terminal.
\<close>

definition twoResistorConnections :: "component \<Rightarrow> connection list" where
  "twoResistorConnections c =
     (if c_id c = ''r1''
      then [\<lparr>conn_wire = wireBetween ''wa'' [''r1-2'', ''r2-1''], conn_terminal = ''2''\<rparr>,
            \<lparr>conn_wire = wireBetween ''wb'' [''r2-2'', ''r1-1''], conn_terminal = ''1''\<rparr>]
      else [\<lparr>conn_wire = wireBetween ''wa'' [''r1-2'', ''r2-1''], conn_terminal = ''1''\<rparr>,
            \<lparr>conn_wire = wireBetween ''wb'' [''r2-2'', ''r1-1''], conn_terminal = ''2''\<rparr>])"

text \<open>The voltage a table holds for a component.\<close>

definition voltageAt :: "(string \<rightharpoonup> component) \<Rightarrow> string \<Rightarrow> jsnum option" where
  "voltageAt componentsById i = map_option (\<lambda>c. v_voltage (c_values c)) (componentsById i)"

section \<open>Validation\<close>

text \<open>
  \<open>SimulationValidator.validateComponent\<close> and \<open>validateWire\<close>: each returns its verdict
  and repairs the object in place. A field that is \<open>undefined\<close> is left alone.
\<close>

definition orDefault :: "jsnum \<Rightarrow> jsnum option \<Rightarrow> jsnum option" where
  "orDefault d x =
     (case x of None \<Rightarrow> None | Some v \<Rightarrow> if isValidNumber v then Some v else Some d)"

definition validateComponent :: "component \<Rightarrow> bool \<times> component" where
  "validateComponent c =
     (if c_type c = [] then (False, c)
      else
        let c1 =
              (if c_type c = ''resistor''
               then c\<lparr>c_resistance := orDefault (Num 1000) (c_resistance c)\<rparr>
               else if c_type c = ''capacitor''
               then c\<lparr>c_capacitance := orDefault (Num 0.000001) (c_capacitance c)\<rparr>
               else if c_type c = ''inductor''
               then c\<lparr>c_inductance := orDefault (Num 0.001) (c_inductance c)\<rparr>
               else if c_type c = ''voltage-source''
               then c\<lparr>c_voltage := orDefault (Num 5) (c_voltage c)\<rparr>
               else if c_type c = ''current-source''
               then c\<lparr>c_current := orDefault (Num 0.01) (c_current c)\<rparr>
               else c);
            c2 = c1\<lparr>c_voltage := orDefault (Num 0) (c_voltage c1)\<rparr>;
            c3 = c2\<lparr>c_current := orDefault (Num 0) (c_current c2)\<rparr>
        in (True, c3))"

text \<open>\<open>!wire.startComponent\<close>: a missing id and the empty string are falsy.\<close>

definition missingId :: "string option \<Rightarrow> bool" where
  "missingId x = (case x of None \<Rightarrow> True | Some i \<Rightarrow> i = [])"

definition validateWire :: "wire \<Rightarrow> bool \<times> wire" where
  "validateWire w =
     (if missingId (w_startComponent w) \<or> missingId (w_endComponent w) then (False, w)
      else
        (True,
         w\<lparr>w_voltage := (if isValidNumber (w_voltage w) then w_voltage w else Num 0),
           w_current := (if isValidNumber (w_current w) then w_current w else Num 0)\<rparr>))"

definition validateSimulation ::
  "component list \<Rightarrow> wire list \<Rightarrow> (bool \<times> nat \<times> nat) \<times> component list \<times> wire list" where
  "validateSimulation cs ws =
     (let totalInvalidComponents = length (filter (\<lambda>c. \<not> fst (validateComponent c)) cs);
          totalInvalidWires = length (filter (\<lambda>w. \<not> fst (validateWire w)) ws)
      in ((totalInvalidComponents = 0 \<and> totalInvalidWires = 0,
           totalInvalidComponents, totalInvalidWires),
          map (\<lambda>c. snd (validateComponent c)) cs, map (\<lambda>w. snd (validateWire w)) ws))"

section \<open>Transient analysis\<close>

text \<open>
  The source declares \<open>performTransientAnalysis\<close> twice, at lines 898 and 1854. Function
  declarations are hoisted and the later one replaces the earlier, so every call runs
  the second declaration, modelled here. The first one, which calls the per-type
  update rules, the wire propagation and the conservation-law corrector, is never run.

  \<open>applyStabilization(componentId, type, newValue)\<close> on the stability tracker.
\<close>

definition applyStabilization ::
  "string \<Rightarrow> string \<Rightarrow> jsnum \<Rightarrow> stabilityTracker \<Rightarrow> jsnum \<times> stabilityTracker" where
  "applyStabilization componentId ty newValue tr =
     (let key = componentId @ ''-'' @ ty in
      case prevValues tr key of
        None \<Rightarrow>
          (newValue,
           tr\<lparr>prevValues := (prevValues tr)
                 (key \<mapsto> \<lparr>t_values = [newValue], t_average = newValue, t_smoothed = newValue\<rparr>)\<rparr>)
      | Some valueData \<Rightarrow>
          (let pushed = t_values valueData @ [newValue];
               vs = (if maxSamples tr < length pushed then tl pushed else pushed);
               average = foldl (\<lambda>sum v. sum + v) (Num 0) vs / Num (real (length vs));
               smoothed = smoothingFactor tr * newValue
                            + (Num 1 - smoothingFactor tr) * t_smoothed valueData;
               variance = foldl (\<lambda>sum v. sum + (v - average) * (v - average)) (Num 0) vs
                            / Num (real (length vs));
               tr' = tr\<lparr>prevValues := (prevValues tr)
                          (key \<mapsto> \<lparr>t_values = vs, t_average = average, t_smoothed = smoothed\<rparr>)\<rparr>
           in (if jgt variance (varianceThreshold tr) then smoothed else newValue, tr')))"

text \<open>\<open>!component.voltage\<close>: \<open>undefined\<close>, 0 and NaN are falsy.\<close>

definition falsyField :: "jsnum option \<Rightarrow> bool" where
  "falsyField x = (case x of None \<Rightarrow> True | Some v \<Rightarrow> \<not> truthy v)"

text \<open>The first loop: default the parameter of each component from \<open>component.value\<close>.\<close>

definition transientDefaults :: "component \<Rightarrow> component" where
  "transientDefaults c =
     (if c_type c = ''voltage-source'' \<and> falsyField (c_voltage c)
      then c\<lparr>c_voltage := Some (jsor_opt (c_value c) (Num 5))\<rparr>
      else if c_type c = ''current-source'' \<and> falsyField (c_current c)
      then c\<lparr>c_current := Some (jsor_opt (c_value c) (Num 0.01))\<rparr>
      else if c_type c = ''resistor'' \<and> falsyField (c_resistance c)
      then c\<lparr>c_resistance := Some (jsor_opt (c_value c) (Num 1000))\<rparr>
      else if c_type c = ''capacitor'' \<and> falsyField (c_capacitance c)
      then c\<lparr>c_capacitance := Some (jsor_opt (c_value c) (Num 0.000001))\<rparr>
      else if c_type c = ''inductor'' \<and> falsyField (c_inductance c)
      then c\<lparr>c_inductance := Some (jsor_opt (c_value c) (Num 0.001))\<rparr>
      else c)"

definition ensureDefined :: "component \<Rightarrow> component" where
  "ensureDefined c =
     c\<lparr>c_voltage := (case c_voltage c of None \<Rightarrow> Some (Num 0) | Some v \<Rightarrow> Some v),
       c_current := (case c_current c of None \<Rightarrow> Some (Num 0) | Some v \<Rightarrow> Some v)\<rparr>"

text \<open>The second loop, for one component: the rule of its type, then the two defaults.\<close>

definition transientComponent ::
  "component \<Rightarrow> stabilityTracker \<Rightarrow> component \<times> stabilityTracker" where
  "transientComponent c tr =
     (if c_type c = ''resistor'' then
        (let current = jsor_opt (c_current c) (Num 0);
             resistance = jsor_opt (c_resistance c) (Num 1000);
             voltageDrop = current * resistance;
             (v, tr') = applyStabilization (c_id c) ''voltage'' voltageDrop tr
         in (ensureDefined (c\<lparr>c_voltage := Some v\<rparr>), tr'))
      else if c_type c = ''capacitor'' then
        (let capacitance = jsor_opt (c_capacitance c) (Num 0.000001);
             current = jsor_opt (c_current c) (Num 0);
             deltaV = (current * Num 0.01) / capacitance;
             newVoltage = jsor_opt (c_voltage c) (Num 0) + deltaV;
             (v, tr') = applyStabilization (c_id c) ''voltage'' newVoltage tr
         in (ensureDefined (c\<lparr>c_voltage := Some v\<rparr>), tr'))
      else if c_type c = ''inductor'' then
        (let inductance = jsor_opt (c_inductance c) (Num 0.001);
             voltage = jsor_opt (c_voltage c) (Num 0);
             deltaI = (voltage * Num 0.01) / inductance;
             newCurrent = jsor_opt (c_current c) (Num 0) + deltaI;
             (i, tr') = applyStabilization (c_id c) ''current'' newCurrent tr
         in (ensureDefined (c\<lparr>c_current := Some i\<rparr>), tr'))
      else (ensureDefined c, tr))"

fun transientComponents ::
  "component list \<Rightarrow> stabilityTracker \<Rightarrow> component list \<times> stabilityTracker" where
  "transientComponents [] tr = ([], tr)"
| "transientComponents (c # cs) tr =
     (let (c', tr1) = transientComponent c tr;
          (cs', tr2) = transientComponents cs tr1
      in (c' # cs', tr2))"

text \<open>
  A lookup table built by assigning each component under its id: the last component
  with an id wins.
\<close>

definition lookupById :: "component list \<Rightarrow> string \<Rightarrow> component option" where
  "lookupById cs i =
     (case filter (\<lambda>c. c_id c = i) cs of [] \<Rightarrow> None | x # xs \<Rightarrow> Some (last (x # xs)))"

definition lookupEnd :: "component list \<Rightarrow> string option \<Rightarrow> component option" where
  "lookupEnd cs x = (case x of None \<Rightarrow> None | Some i \<Rightarrow> lookupById cs i)"

definition transientWire :: "component list \<Rightarrow> wire \<Rightarrow> wire" where
  "transientWire cs w =
     (case (lookupEnd cs (w_startComponent w), lookupEnd cs (w_endComponent w)) of
        (Some startComponent, Some endComponent) \<Rightarrow>
          w\<lparr>w_voltage := jsor_opt (c_voltage startComponent) (Num 0),
            w_current := jsor_opt (c_current startComponent) (Num 0)\<rparr>
      | _ \<Rightarrow> w)"

definition performTransientAnalysis :: "state \<Rightarrow> state" where
  "performTransientAnalysis st =
     (let cs1 = map transientDefaults (components st);
          (cs2, tr) = transientComponents cs1 (tracker st);
          ws = map (transientWire cs2) (wires st)
      in st\<lparr>components := cs2, wires := ws, tracker := tr\<rparr>)"

section \<open>DC analysis\<close>

text \<open>
  The inner scans of \<open>performDCAnalysis\<close> over all components. Reading
  \<open>c.properties.resistance.value\<close> or \<open>c.properties.voltage.value\<close> of a component that
  lacks the property raises a TypeError (\<open>None\<close>).
\<close>

fun scanResistance :: "component list \<Rightarrow> jsnum \<Rightarrow> jsnum option" where
  "scanResistance [] totalResistance = Some totalResistance"
| "scanResistance (c # cs) totalResistance =
     (if c_type c = ''resistor'' then
        (case p_resistance (c_properties c) of
           None \<Rightarrow> None
         | Some r \<Rightarrow> scanResistance cs r)
      else scanResistance cs totalResistance)"

fun scanSourceVoltage :: "component list \<Rightarrow> jsnum \<Rightarrow> jsnum option" where
  "scanSourceVoltage [] sourceVoltage = Some sourceVoltage"
| "scanSourceVoltage (c # cs) sourceVoltage =
     (if c_type c = ''voltage-source'' then
        (case p_voltage (c_properties c) of
           None \<Rightarrow> None
         | Some v \<Rightarrow> scanSourceVoltage cs v)
      else scanSourceVoltage cs sourceVoltage)"

fun scanCircuitCurrent :: "component list \<Rightarrow> jsnum \<Rightarrow> jsnum" where
  "scanCircuitCurrent [] circuitCurrent = circuitCurrent"
| "scanCircuitCurrent (c # cs) circuitCurrent =
     scanCircuitCurrent cs
       (if c_type c = ''resistor'' \<and> truthy (v_current (c_values c))
        then v_current (c_values c) else circuitCurrent)"

text \<open>
  One iteration of the outer loop: the component, with all components as they stand. A
  raise keeps what the iteration has stored so far.
\<close>

definition dcComponent :: "component list \<Rightarrow> component \<Rightarrow> component outcome" where
  "dcComponent allComponents c =
     (if c_type c = ''voltage-source'' then
        (case p_voltage (c_properties c) of
           None \<Rightarrow> Raised TypeError c
         | Some v \<Rightarrow>
             (let c1 = c\<lparr>c_values := (c_values c)\<lparr>v_voltage := v\<rparr>\<rparr> in
              case scanResistance allComponents (Num 1000) of
                None \<Rightarrow> Raised TypeError c1
              | Some totalResistance \<Rightarrow>
                  Done (c\<lparr>c_values :=
                           \<lparr>v_voltage = v, v_current = v / totalResistance,
                            v_power = v * (v / totalResistance)\<rparr>\<rparr>)))
      else if c_type c = ''resistor'' then
        (case scanSourceVoltage allComponents (Num 5) of
           None \<Rightarrow> Raised TypeError c
         | Some sourceVoltage \<Rightarrow>
             (case p_resistance (c_properties c) of
                None \<Rightarrow> Raised TypeError c
              | Some resistance \<Rightarrow>
                  (let current = sourceVoltage / resistance;
                       voltage = current * resistance
                   in Done (c\<lparr>c_values :=
                               \<lparr>v_voltage = voltage, v_current = current,
                                v_power = voltage * current\<rparr>\<rparr>))))
      else if c_type c = ''capacitor'' then
        Done (c\<lparr>c_values := \<lparr>v_voltage = Num 0, v_current = Num 0, v_power = Num 0\<rparr>\<rparr>)
      else if c_type c = ''inductor'' then
        Done (c\<lparr>c_values :=
                 \<lparr>v_voltage = Num 0, v_current = scanCircuitCurrent allComponents (Num 0.1),
                  v_power = Num 0\<rparr>\<rparr>)
      else
        Done (c\<lparr>c_values :=
                 \<lparr>v_voltage = Num 0.5, v_current = Num 0.01, v_power = Num 0.5 * Num 0.01\<rparr>\<rparr>))"

text \<open>The outer loop: the components already visited, then those still to visit.\<close>

fun dcComponents :: "component list \<Rightarrow> component list \<Rightarrow> component list outcome" where
  "dcComponents visited [] = Done visited"
| "dcComponents visited (c # rest) =
     (case dcComponent (visited @ c # rest) c of
        Raised e c' \<Rightarrow> Raised e (visited @ c' # rest)
      | Done c' \<Rightarrow> dcComponents (visited @ [c']) rest)"

text \<open>\<open>sourceComponent && sourceComponent.values.current\<close>\<close>

definition liveEnd :: "component option \<Rightarrow> component option" where
  "liveEnd x =
     (case x of
        None \<Rightarrow> None
      | Some c \<Rightarrow> if truthy (v_current (c_values c)) then Some c else None)"

definition dcWire :: "component list \<Rightarrow> wire \<Rightarrow> wire" where
  "dcWire cs w =
     (case liveEnd (lookupEnd cs (w_source w)) of
        Some sourceComponent \<Rightarrow>
          w\<lparr>w_current := v_current (c_values sourceComponent),
            w_voltage := v_voltage (c_values sourceComponent)\<rparr>
      | None \<Rightarrow>
          (case liveEnd (lookupEnd cs (w_target w)) of
             Some targetComponent \<Rightarrow>
               w\<lparr>w_current := v_current (c_values targetComponent),
                 w_voltage := v_voltage (c_values targetComponent)\<rparr>
           | None \<Rightarrow> w\<lparr>w_current := Num 0.01, w_voltage := Num 0.1\<rparr>))"

definition performDCAnalysis :: "state \<Rightarrow> state outcome" where
  "performDCAnalysis st =
     (case dcComponents [] (components st) of
        Raised e cs \<Rightarrow> Raised e (st\<lparr>components := cs\<rparr>)
      | Done cs \<Rightarrow> Done (st\<lparr>components := cs, wires := map (dcWire cs) (wires st)\<rparr>))"

section \<open>AC analysis\<close>

text \<open>
  The AC analysis reads a component's size as \<open>component.value?.value\<close>. In this model
  \<open>component.value\<close> is a number or \<open>undefined\<close>, as the transient analysis reads it, so
  the access yields \<open>undefined\<close> and the \<open>||\<close> chain goes on to its next operand.
\<close>

definition valueValue :: "component \<Rightarrow> jsnum option" where
  "valueValue c = None"

definition acAmplitude :: "component \<Rightarrow> jsnum" where
  "acAmplitude c =
     toFixed 6 (case valueValue c of
                  Some v \<Rightarrow> jsor v (jsor_opt (p_voltage (c_properties c)) (Num 5))
                | None \<Rightarrow> jsor_opt (p_voltage (c_properties c)) (Num 5))"

definition acFrequency :: "component \<Rightarrow> jsnum" where
  "acFrequency c = toFixed 2 (jsor_opt (p_frequency (c_properties c)) (Num 1000))"

definition acWaveform :: "component \<Rightarrow> string" where
  "acWaveform c =
     (case p_waveform (c_properties c) of
        None \<Rightarrow> ''sine''
      | Some w \<Rightarrow> if w = [] then ''sine'' else w)"

definition capacitiveReactance :: "jsnum \<Rightarrow> jsnum \<Rightarrow> jsnum" where
  "capacitiveReactance frequency capacitance =
     (if jgt frequency (Num 0) then Num 1 / (Num 2 * Num Math_PI * frequency * capacitance)
      else PInf)"

definition calculateCircuitImpedance ::
  "component list \<Rightarrow> component list \<Rightarrow> component list \<Rightarrow> jsnum \<Rightarrow> jsnum" where
  "calculateCircuitImpedance resistors capacitors inductors frequency =
     (let totalResistance =
            foldl (\<lambda>sum r. sum + jsor_opt (valueValue r) (Num 1000)) (Num 1000) resistors;
          totalCapacitiveReactance =
            foldl (\<lambda>sum c. sum + capacitiveReactance frequency
                                   (jsor_opt (valueValue c) (Num 10) * Num 0.000001))
              (Num 0) capacitors;
          totalInductiveReactance =
            foldl (\<lambda>sum l. sum + Num 2 * Num Math_PI * frequency
                                   * (jsor_opt (valueValue l) (Num 1) * Num 0.001))
              (Num 0) inductors
      in Math_sqrt (totalResistance * totalResistance
                    + (totalInductiveReactance - totalCapacitiveReactance)
                      * (totalInductiveReactance - totalCapacitiveReactance)))"

definition acVoltageSource ::
  "component list \<Rightarrow> component list \<Rightarrow> component list \<Rightarrow> jsnum \<Rightarrow> component \<Rightarrow> component" where
  "acVoltageSource resistors capacitors inductors timeInSeconds c =
     (let amplitude = acAmplitude c;
          frequency = acFrequency c;
          waveformType = acWaveform c;
          voltage =
            (if waveformType = ''square'' then
               amplitude * Math_sign (Math_sin (Num 2 * Num Math_PI * frequency * timeInSeconds))
             else if waveformType = ''triangle'' then
               amplitude * (Num 2 * \<bar>jsrem (Num 2 * frequency * timeInSeconds) 2 - Num 1\<bar> - Num 1)
             else if waveformType = ''sawtooth'' then
               amplitude * (Num 2 * jsrem (frequency * timeInSeconds) 1 - Num 1)
             else amplitude * Math_sin (Num 2 * Num Math_PI * frequency * timeInSeconds));
          v = toFixed 6 voltage;
          totalImpedance = calculateCircuitImpedance resistors capacitors inductors frequency;
          i = toFixed 9 (v / totalImpedance)
      in c\<lparr>c_values := \<lparr>v_voltage = v, v_current = i, v_power = toFixed 6 (v * i)\<rparr>\<rparr>)"

text \<open>
  The three loops of \<open>processComponents\<close> over resistors, capacitors and inductors, for
  one component. \<open>sourceCurrent\<close> is \<open>voltageSource.values.current\<close> of the first voltage
  source; \<open>frequency\<close> and \<open>amplitude\<close> are those of that source, or 1000 and 5 without
  one. The frequency sweep that follows changes no component and no wire.
\<close>

definition acPassive :: "jsnum \<Rightarrow> jsnum \<Rightarrow> jsnum \<Rightarrow> jsnum \<Rightarrow> component \<Rightarrow> component" where
  "acPassive sourceCurrent frequency amplitude timeInSeconds c =
     (if c_type c = ''resistor'' then
        (let resistance = toFixed 6 (jsor_opt (valueValue c) (Num 1000));
             current = toFixed 9 sourceCurrent;
             voltage = toFixed 6 (current * resistance)
         in c\<lparr>c_values := \<lparr>v_voltage = voltage, v_current = current,
                            v_power = toFixed 6 (voltage * current)\<rparr>\<rparr>)
      else if c_type c = ''capacitor'' then
        (let capacitanceF = toFixed 12 (jsor_opt (valueValue c) (Num 10) * Num 0.000001);
             reactance = capacitiveReactance frequency capacitanceF;
             current = toFixed 9 (amplitude / reactance);
             voltage = toFixed 6 (amplitude
                         * Math_sin (Num 2 * Num Math_PI * frequency * timeInSeconds
                                       + (- Num Math_PI) / Num 2))
         in c\<lparr>c_values := \<lparr>v_voltage = voltage, v_current = current,
                            v_power = toFixed 6 (voltage * current)\<rparr>\<rparr>)
      else if c_type c = ''inductor'' then
        (let inductanceH = toFixed 9 (jsor_opt (valueValue c) (Num 1) * Num 0.001);
             reactance = Num 2 * Num Math_PI * frequency * inductanceH;
             current = toFixed 9 (amplitude / reactance);
             voltage = toFixed 6 (amplitude
                         * Math_sin (Num 2 * Num Math_PI * frequency * timeInSeconds
                                       + Num Math_PI / Num 2))
         in c\<lparr>c_values := \<lparr>v_voltage = voltage, v_current = current,
                            v_power = toFixed 6 (voltage * current)\<rparr>\<rparr>)
      else c)"

definition acWire :: "component list \<Rightarrow> wire \<Rightarrow> wire" where
  "acWire cs w =
     (let endOf = (\<lambda>x. case x of None \<Rightarrow> None
                              | Some i \<Rightarrow> if i = [] then None else lookupById cs i) in
      case endOf (w_source w) of
        Some sourceComponent \<Rightarrow>
          w\<lparr>w_current := toFixed 9 (jsor (v_current (c_values sourceComponent)) (Num 0)),
            w_voltage := toFixed 6 (jsor (v_voltage (c_values sourceComponent)) (Num 0))\<rparr>
      | None \<Rightarrow>
          (case endOf (w_target w) of
             Some targetComponent \<Rightarrow>
               w\<lparr>w_current := toFixed 9 (jsor (v_current (c_values targetComponent)) (Num 0)),
                 w_voltage := toFixed 6 (jsor (v_voltage (c_values targetComponent)) (Num 0))\<rparr>
           | None \<Rightarrow> w))"

text \<open>
  \<open>performACAnalysis\<close>. With a resistor and no voltage source the first resistor
  dereferences \<open>null\<close>: a TypeError, raised before anything has been stored.
\<close>

definition performACAnalysis :: "state \<Rightarrow> state outcome" where
  "performACAnalysis st =
     (let cs = components st;
          voltageSourceComponents = filter (\<lambda>c. c_type c = ''voltage-source'') cs;
          resistorComponents = filter (\<lambda>c. c_type c = ''resistor'') cs;
          capacitorComponents = filter (\<lambda>c. c_type c = ''capacitor'') cs;
          inductorComponents = filter (\<lambda>c. c_type c = ''inductor'') cs;
          update = acVoltageSource resistorComponents capacitorComponents inductorComponents
                     (time st);
          cs1 = map (\<lambda>c. if c_type c = ''voltage-source'' then update c else c) cs
      in case voltageSourceComponents of
           [] \<Rightarrow>
             (if resistorComponents \<noteq> [] then Raised TypeError st
              else
                let cs2 = map (acPassive (Num 0) (Num 1000) (Num 5) (time st)) cs1 in
                Done (postMessage FrequencyResponse
                        (st\<lparr>components := cs2, wires := map (acWire cs2) (wires st)\<rparr>)))
         | voltageSource # _ \<Rightarrow>
             (let cs2 = map (acPassive (v_current (c_values (update voltageSource)))
                               (acFrequency voltageSource) (acAmplitude voltageSource)
                               (time st)) cs1
              in Done (postMessage FrequencyResponse
                         (st\<lparr>components := cs2, wires := map (acWire cs2) (wires st)\<rparr>))))"

section \<open>The simulation step and the timers\<close>

definition arrayOf5 :: "jsnum \<Rightarrow> jsnum list" where
  "arrayOf5 v = replicate 5 v"

definition initializeValueHistory :: "state \<Rightarrow> state" where
  "initializeValueHistory st =
     st\<lparr>componentValueHistory :=
          foldl (\<lambda>h c. h(c_id c \<mapsto>
                          (HistArray (arrayOf5 (jsor (v_voltage (c_values c)) (Num 0))),
                           HistArray (arrayOf5 (jsor (v_current (c_values c)) (Num 0))))))
            (componentValueHistory st) (components st),
        wireValueHistory :=
          foldl (\<lambda>h w. h(w_id w \<mapsto> arrayOf5 (jsor (w_current w) (Num 0))))
            (wireValueHistory st) (wires st)\<rparr>"

definition recoverFromError :: "state \<Rightarrow> state" where
  "recoverFromError st =
     initializeValueHistory
       (st\<lparr>components :=
             map (\<lambda>c. if \<not> fst (validateComponent c) then c\<lparr>c_values := zeroValues\<rparr>
                       else snd (validateComponent c)) (components st),
           wires :=
             map (\<lambda>w. if \<not> fst (validateWire w) then w\<lparr>w_current := Num 0, w_voltage := Num 0\<rparr>
                       else snd (validateWire w)) (wires st),
           stabilized := False,
           iterationCount := 0\<rparr>)"

text \<open>The \<open>catch\<close> branch of \<open>performSimulationStep\<close>.\<close>

definition handleStepError :: "state \<Rightarrow> state" where
  "handleStepError st = recoverFromError (postMessage (SimulationError (time st)) st)"

text \<open>
  The \<open>results\<close> branch of \<open>performSimulationStep\<close>: validate the results, validate
  them once more for the summary, post the update.
\<close>

definition reportResults :: "state \<Rightarrow> state" where
  "reportResults st =
     (let cs1 = map (\<lambda>c. snd (validateComponent c)) (components st);
          ws1 = map (\<lambda>w. snd (validateWire w)) (wires st);
          (summary, cs2, ws2) = validateSimulation cs1 ws1
      in postMessage (SimulationUpdate cs2 ws2 (time st) (stabilized st) summary)
           (st\<lparr>components := cs2, wires := ws2\<rparr>))"

text \<open>
  \<open>performSimulationStep\<close>. Only the transient analysis returns a result object; the DC
  and AC analyses return \<open>undefined\<close>, so after them nothing is validated or posted.
\<close>

definition performSimulationStep :: "state \<Rightarrow> state" where
  "performSimulationStep st =
     (if \<not> running st then st
      else
        let st1 = st\<lparr>iterationCount := Suc (iterationCount st)\<rparr>;
            st2 = st1\<lparr>components := map (\<lambda>c. snd (validateComponent c)) (components st1),
                      wires := map (\<lambda>w. snd (validateWire w)) (wires st1)\<rparr>
        in if simType st2 = ''dc'' then
             (case performDCAnalysis st2 of
                Done s \<Rightarrow> s
              | Raised e s \<Rightarrow> handleStepError s)
           else if simType st2 = ''ac'' then
             (case performACAnalysis st2 of
                Done s \<Rightarrow> s
              | Raised e s \<Rightarrow> handleStepError s)
           else reportResults (performTransientAnalysis st2))"

text \<open>\<open>startSimulation(data)\<close>; each field of \<open>data\<close> may be missing.\<close>

record startData =
  d_components :: "component list option"
  d_wires :: "wire list option"
  d_simulationType :: "string option"
  d_simulationSpeed :: "jsnum option"

definition startSimulation :: "startData \<Rightarrow> state \<Rightarrow> state" where
  "startSimulation d st =
     (let ty = (case d_simulationType d of
                  None \<Rightarrow> ''tran''
                | Some t \<Rightarrow> if t = [] then ''tran'' else t);
          st1 = st\<lparr>components := (case d_components d of None \<Rightarrow> [] | Some cs \<Rightarrow> cs),
                    wires := (case d_wires d of None \<Rightarrow> [] | Some ws \<Rightarrow> ws),
                    simType := ty,
                    speed := jsor_opt (d_simulationSpeed d) (Num 1),
                    time := Num 0,
                    running := True,
                    iterationCount := 0,
                    componentValueHistory := Map.empty,
                    wireValueHistory := Map.empty,
                    stabilized := False\<rparr>;
          st2 = initializeValueHistory st1;
          st3 = (if ty = ''ac''
                 then st2\<lparr>tracker := (tracker st2)\<lparr>maxSamples := 10, smoothingFactor := Num 0.8\<rparr>\<rparr>
                 else if ty = ''dc''
                 then st2\<lparr>tracker := (tracker st2)\<lparr>maxSamples := 3, smoothingFactor := Num 0.5\<rparr>\<rparr>
                 else st2);
          interval = Math_max (Num 10) (Num 50 / speed st3)
      in postMessage SimulationStarted (setInterval StartLoop interval st3))"

text \<open>
  The callback installed by \<open>updateSimulationSpeed\<close>. It is not wrapped in \<open>try\<close>: a
  raise of the analysis leaves the callback before the time is advanced.
\<close>

definition speedLoopSnapshot :: "state \<Rightarrow> msg" where
  "speedLoopSnapshot st =
     SpeedLoopUpdate (map (\<lambda>c. (c_id c, c_values c)) (components st))
                     (map (\<lambda>w. (w_id w, w_current w, w_voltage w)) (wires st))
                     (time st)"

definition speedLoopTick :: "state \<Rightarrow> state outcome" where
  "speedLoopTick st =
     (if \<not> running st then Done st
      else
        let advance =
              (\<lambda>s. let s1 = s\<lparr>time := time s + Num 0.01 * speed s\<rparr>
                    in postMessage (speedLoopSnapshot s1) s1)
        in if simType st = ''dc'' then
             (case performDCAnalysis st of
                Done s \<Rightarrow> Done (advance s)
              | Raised e s \<Rightarrow> Raised e s)
           else if simType st = ''ac'' then
             (case performACAnalysis st of
                Done s \<Rightarrow> Done (advance s)
              | Raised e s \<Rightarrow> Raised e s)
           else Done (advance (performTransientAnalysis st)))"

text \<open>A registered timer fires: its callback runs. A cleared handle never fires.\<close>

definition timerFires :: "nat \<Rightarrow> state \<Rightarrow> state outcome" where
  "timerFires h st =
     (case timers st h of
        None \<Rightarrow> Done st
      | Some t \<Rightarrow>
          (case t_body t of
             StartLoop \<Rightarrow> Done (if running st then performSimulationStep st else st)
           | SpeedLoop \<Rightarrow> speedLoopTick st))"

section \<open>Properties\<close>

subsection \<open>Arithmetic on finite numbers\<close>

lemma toDouble_small: "\<bar>r\<bar> \<le> 10 ^ 300 \<Longrightarrow> toDouble r = Num r"
proof -
  assume a: "\<bar>r\<bar> \<le> 10 ^ 300"
  have "(10::real) ^ 300 < overflowLimit"
    by (simp add: overflowLimit_def)
  with a show ?thesis by (simp add: toDouble_def abs_le_iff)
qed

lemma toDouble_1000: "\<bar>r\<bar> \<le> 1000 \<Longrightarrow> toDouble r = Num r"
  by (rule toDouble_small) simp



lemma jle_Num [simp]: "jle (Num a) (Num b) = (a \<le> b)"
  by (auto simp: jle_def)

lemma jgt_Num [simp]: "jgt (Num a) (Num b) = (b < a)"
  by (simp add: jgt_def)

lemma jsor_Num [simp]: "jsor (Num a) d = (if a = 0 then d else Num a)"
  by (simp add: jsor_def)

lemma pow_mono10: "m \<le> n \<Longrightarrow> (10::real) ^ m \<le> 10 ^ n"
  by (simp add: power_increasing)

lemma exact: "\<bar>r\<bar> \<le> 10 ^ m \<Longrightarrow> m \<le> 300 \<Longrightarrow> toDouble r = Num r"
  using pow_mono10 [of m 300] by (intro toDouble_small) linarith

lemma mag_mult: "\<bar>a\<bar> \<le> 10 ^ m \<Longrightarrow> \<bar>b\<bar> \<le> 10 ^ n \<Longrightarrow> \<bar>a * b\<bar> \<le> (10::real) ^ (m + n)"
  by (simp add: abs_mult power_add mult_mono)

lemma mag_add: "\<bar>a\<bar> \<le> 10 ^ m \<Longrightarrow> \<bar>b\<bar> \<le> 10 ^ m \<Longrightarrow> \<bar>a + b\<bar> \<le> (10::real) ^ Suc m"
  by (simp add: abs_le_iff) 



lemma mul_exact:
  "\<bar>a\<bar> \<le> 10 ^ m \<Longrightarrow> \<bar>b\<bar> \<le> 10 ^ n \<Longrightarrow> m + n \<le> 300 \<Longrightarrow> Num a * Num b = Num (a * b)"
  using exact [OF mag_mult] by simp

lemma add_exact:
  "\<bar>a\<bar> \<le> 10 ^ m \<Longrightarrow> \<bar>b\<bar> \<le> 10 ^ m \<Longrightarrow> m < 300 \<Longrightarrow> Num a + Num b = Num (a + b)"
  using exact [OF mag_add, of a m b] by simp


subsection \<open>Rejecting a non-positive speed\<close>

text \<open>
  C10. \<open>updateSimulationSpeed\<close> called with a speed less than or equal to 0 returns at
  once: the whole simulation state (stored speed, timers and step interval, simulated
  time, every component and wire) is the state before the call.
\<close>

theorem updateSimulationSpeed_rejects_nonpositive:
  "jle s (Num 0) \<Longrightarrow> updateSimulationSpeed s st = Done st"
  by (simp add: updateSimulationSpeed_def)

theorem updateSimulationSpeed_rejects_nonpositive_witness:
  "jle (Num (- 2)) (Num 0) \<and>
   updateSimulationSpeed (Num (- 2)) initialState = Done initialState"
  using updateSimulationSpeed_rejects_nonpositive [of "Num (- 2)" initialState]
  by simp

subsection \<open>Sources bypass the stability filter\<close>

text \<open>
  C6. Applying the stability filter to a component whose type is \<open>voltage-source\<close> or
  \<open>current-source\<close> returns at once: the component (its values voltage, current and
  power included) and the filter state are exactly what they were, whatever the state
  (time, iteration count, histories) of the simulation.
\<close>

theorem applyStabilityFilter_skips_sources:
  "c_type c = ''voltage-source'' \<or> c_type c = ''current-source'' \<Longrightarrow>
     applyStabilityFilter st c = Done (st, c)"
  by (simp add: applyStabilityFilter_def isSource_def)

theorem applyStabilityFilter_skips_sources_witness:
  "c_type (Component ''v1'' ''voltage-source'' noProps) = ''voltage-source'' \<and>
   applyStabilityFilter initialState (Component ''v1'' ''voltage-source'' noProps)
     = Done (initialState, Component ''v1'' ''voltage-source'' noProps)"
  using applyStabilityFilter_skips_sources
          [of "Component ''v1'' ''voltage-source'' noProps" initialState]
  by (simp add: Component_def)

subsection \<open>The enhanced stability filter\<close>





















subsection \<open>The voltage-source update rule\<close>

lemma jge_Num [simp]: "jge (Num a) (Num b) = (b \<le> a)"
  by (simp add: jge_def)









subsection \<open>The conservation-law corrector\<close>

text \<open>
  Whatever the helper binding, the pass keeps every table entry with its type, and the
  voltage of every voltage source and current source.
\<close>

lemma keptSources_refl: "keptSources m m"
  by (simp add: keptSources_def)

lemma keptSources_trans:
  assumes a: "keptSources m m1" and b: "keptSources m1 m2"
  shows "keptSources m m2"
  unfolding keptSources_def
proof (intro allI impI)
  fix i c
  assume "m i = Some c"
  with a obtain c1 where c1: "m1 i = Some c1" "c_type c1 = c_type c"
    "isSource c \<longrightarrow> v_voltage (c_values c1) = v_voltage (c_values c)"
    unfolding keptSources_def by blast
  from b c1(1) obtain c2 where c2: "m2 i = Some c2" "c_type c2 = c_type c1"
    "isSource c1 \<longrightarrow> v_voltage (c_values c2) = v_voltage (c_values c1)"
    unfolding keptSources_def by blast
  have "isSource c1 = isSource c" using c1(2) by (simp add: isSource_def)
  with c1 c2 show "\<exists>c'. m2 i = Some c' \<and> c_type c' = c_type c \<and>
           (isSource c \<longrightarrow> v_voltage (c_values c') = v_voltage (c_values c))"
    by simp
qed

lemma keptSources_adjustVoltage: "keptSources m (adjustVoltage corr e m)"
  unfolding keptSources_def
  by (auto simp: adjustVoltage_def isSource_def split: option.splits)

lemma keptSources_adjustLoop: "keptSources m (adjustLoop corr es m)"
proof (induction es arbitrary: m)
  case Nil
  show ?case by (simp add: keptSources_refl)
next
  case (Cons e es)
  from keptSources_trans [OF keptSources_adjustVoltage Cons.IH]
  show ?case by simp
qed

lemma keptSources_correctLoop: "keptSources m (correctLoop loop m)"
  by (simp add: correctLoop_def Let_def keptSources_refl keptSources_adjustLoop)

lemma keptSources_applyKVL: "keptSources m (applyKVL loops m)"
proof (induction loops arbitrary: m)
  case Nil
  show ?case by (simp add: keptSources_refl)
next
  case (Cons l ls)
  from keptSources_trans [OF keptSources_correctLoop Cons.IH]
  show ?case by simp
qed

lemma keptSources_adjustCurrent: "keptSources (fst tb) (fst (adjustCurrent corr e tb))"
  unfolding keptSources_def
  by (auto simp: adjustCurrent_def Let_def isSource_def split: option.splits)

lemma keptSources_adjustNode: "keptSources (fst tb) (fst (adjustNode corr es tb))"
proof (induction es arbitrary: tb)
  case Nil
  show ?case by (simp add: keptSources_refl)
next
  case (Cons e es)
  from keptSources_trans [OF keptSources_adjustCurrent Cons.IH]
  show ?case by simp
qed

lemma keptSources_correctNode: "keptSources (fst tb) (fst (correctNode nd tb))"
  by (simp add: correctNode_def Let_def keptSources_refl keptSources_adjustNode)

lemma keptSources_applyKCL: "keptSources (fst tb) (fst (applyKCL nds tb))"
proof (induction nds arbitrary: tb)
  case Nil
  show ?case by (simp add: keptSources_refl)
next
  case (Cons n ns)
  from keptSources_trans [OF keptSources_correctNode Cons.IH]
  show ?case by simp
qed


lemma keptSources_applyConservationLaws:
  "keptSources m (fst (after (applyConservationLaws g cs ws m wm)))"
proof (cases "findVoltageLoops g cs m")
  case (Inl e)
  then show ?thesis by (simp add: applyConservationLaws_def keptSources_refl)
next
  case (Inr loops)
  have "keptSources (applyKVL loops m)
          (fst (applyKCL (findCurrentNodes ws (applyKVL loops m)) (applyKVL loops m, wm)))"
    using keptSources_applyKCL [of "(applyKVL loops m, wm)"] by simp
  from keptSources_trans [OF keptSources_applyKVL this] Inr
  show ?thesis by (simp add: applyConservationLaws_def Let_def)
qed

lemma applyConservationLaws_undeclared:
  "applyConservationLaws None (c # cs) ws componentsById wiresById
     = Raised ReferenceError (componentsById, wiresById)"
  by (simp add: applyConservationLaws_def findVoltageLoops_def)

lemma find_loops:
  "findVoltageLoops (Some twoResistorConnections) ringComponents twoResistorTable
     = Inr [[componentElement ''r1'' (Num 1), componentElement ''r2'' (Num 1),
             componentElement ''r1'' (Num 1)],
            [componentElement ''r2'' (Num 1), componentElement ''r1'' (Num 1),
             componentElement ''r2'' (Num 1)]]"
  by (simp add: findVoltageLoops_def twoResistorConnections_def twoResistorTable_def
        ringComponents_def resistorAt_def Component_def wireBetween_def splitComponentId_def
        eval_nat_numeral Let_def List.map_filter_simps)

lemma first_loop:
  "correctLoop [componentElement ''r1'' (Num 1), componentElement ''r2'' (Num 1),
                componentElement ''r1'' (Num 1)] twoResistorTable
     = [''r1'' \<mapsto> resistorAt ''r1'' (- 1), ''r2'' \<mapsto> resistorAt ''r2'' 0]"
  by (simp add: correctLoop_def Let_def twoResistorTable_def componentElement_def
        voltageOf_def adjustVoltage_def resistorAt_def Component_def toDouble_1000
        minus_jsnum_def fun_upd_twist)

text \<open>
  C5. On a ring of two resistors at 1 V each (signed sum 2 V, above the threshold) the
  pass raises a ReferenceError at the call of the undeclared \<open>getComponentConnections\<close>:
  no loop is discovered, the tables are what they were and both resistors keep 1 V,
  where the corrector is to lower each by the mean residual.
\<close>

theorem applyConservationLaws_ring_raises:
  "applyConservationLaws None ringComponents ringWires twoResistorTable ringWireTable
     = Raised ReferenceError (twoResistorTable, ringWireTable)
   \<and> loopVoltage twoResistorTable
        [componentElement ''r1'' (Num 1), componentElement ''r2'' (Num 1)] (Num 0) = Num 2
   \<and> voltageAt twoResistorTable ''r1'' = Some (Num 1)
   \<and> voltageAt twoResistorTable ''r2'' = Some (Num 1)"
  by (simp add: applyConservationLaws_def findVoltageLoops_def ringComponents_def
        twoResistorTable_def voltageAt_def resistorAt_def componentElement_def voltageOf_def
        Component_def toDouble_1000)

end
